theory Spec2Isabelle
  imports Complex_Main "HOL-Library.Sublist"
begin

section \<open>Values, dictionaries and exceptions\<close>

text \<open>
  Alerts, store documents and pipeline stages are schemaless Python values. A dictionary
  is an association list in insertion order (the store compares embedded documents field
  by field in order); floating-point numbers are modelled by the reals, so that
  \<open>ra - 180.0\<close> is the subtraction of the model.
\<close>

datatype json =
    JNull
  | JBool bool
  | JInt int
  | JNum real
  | JStr string
  | JList "json list"
  | JObj "(string \<times> json) list"

type_synonym dict = "(string \<times> json) list"

datatype exn =
    KeyError string
  | TypeError
  | IndexError
  | AttributeError
  | EopError
  | UnicodeDecodeError
  | KeyboardInterrupt
  | OtherError string

text \<open>What \<open>except Exception\<close> catches: every error of the model but the keyboard
  interrupt, which Python does not derive from \<open>Exception\<close>.\<close>

definition is_Exception :: "exn \<Rightarrow> bool" where
  "is_Exception e = (e \<noteq> KeyboardInterrupt)"

text \<open>\<open>d[k]\<close> on a dictionary: a missing key raises \<open>KeyError\<close>.\<close>

definition getitem :: "dict \<Rightarrow> string \<Rightarrow> exn + json" where
  "getitem d k = (case map_of d k of None \<Rightarrow> Inl (KeyError k) | Some v \<Rightarrow> Inr v)"

text \<open>\<open>v[k]\<close> with a string key on any value: only a dictionary can be subscripted so.\<close>

definition subscr :: "json \<Rightarrow> string \<Rightarrow> exn + json" where
  "subscr v k = (case v of JObj d \<Rightarrow> getitem d k | _ \<Rightarrow> Inl TypeError)"

text \<open>\<open>d[k] = v\<close>: an existing key keeps its position, a new key goes last.\<close>

definition setitem :: "('k \<times> 'v) list \<Rightarrow> 'k \<Rightarrow> 'v \<Rightarrow> ('k \<times> 'v) list" where
  "setitem d k v =
     (if k \<in> fst ` set d then map (\<lambda>(k', v'). if k' = k then (k', v) else (k', v')) d
      else d @ [(k, v)])"

text \<open>\<open>d.pop(k, None)\<close>, the popped value discarded.\<close>

definition pop :: "dict \<Rightarrow> string \<Rightarrow> dict" where
  "pop d k = filter (\<lambda>(k', v'). k' \<noteq> k) d"

text \<open>\<open>{**a, **b}\<close>.\<close>

definition dict_merge :: "dict \<Rightarrow> dict \<Rightarrow> dict" where
  "dict_merge a b = fold (\<lambda>(k, v) d. setitem d k v) b a"

text \<open>\<open>x - 180.0\<close>: numbers (and booleans, which Python counts as integers) only.\<close>

definition sub180 :: "json \<Rightarrow> exn + json" where
  "sub180 v =
     (case v of
        JNum r \<Rightarrow> Inr (JNum (r - 180))
      | JInt i \<Rightarrow> Inr (JNum (of_int i - 180))
      | JBool b \<Rightarrow> Inr (JNum ((if b then 1 else 0) - 180))
      | _ \<Rightarrow> Inl TypeError)"

section \<open>The alert normalizer\<close>

text \<open>
  The helpers \<open>deg2hms\<close>, \<open>deg2dms\<close> and \<open>radec2lb\<close> live in the \<open>utils\<close> module; they
  are parameters of the model and may raise.
\<close>

record utils =
  deg2hms :: "json \<Rightarrow> exn + json"
  deg2dms :: "json \<Rightarrow> exn + json"
  radec2lb :: "json \<Rightarrow> json \<Rightarrow> exn + json \<times> json"

text \<open>
  \<open>AlertConsumer.alert_mongify\<close>. The nested dictionary \<open>doc['coordinates']\<close> is created
  empty at its place in \<open>doc\<close> and filled key by key; the model builds its final content
  and stores it at that place.
\<close>

definition alert_mongify :: "'a utils_scheme \<Rightarrow> dict \<Rightarrow> exn + dict \<times> json" where
  "alert_mongify u alert =
     (let doc = setitem alert ''classifications'' (JObj []);
          doc = setitem doc ''coordinates'' (JObj [])
      in case getitem doc ''candidate'' of Inl e \<Rightarrow> Inl e | Inr cand \<Rightarrow>
        (case subscr cand ''ra'' of Inl e \<Rightarrow> Inl e | Inr ra \<Rightarrow>
        (case subscr cand ''dec'' of Inl e \<Rightarrow> Inl e | Inr dec \<Rightarrow>
        (case deg2hms u ra of Inl e \<Rightarrow> Inl e | Inr hms \<Rightarrow>
        (case deg2dms u dec of Inl e \<Rightarrow> Inl e | Inr dms \<Rightarrow>
        (case sub180 ra of Inl e \<Rightarrow> Inl e | Inr ra_geojson \<Rightarrow>
        (case radec2lb u ra dec of Inl e \<Rightarrow> Inl e | Inr (l, b) \<Rightarrow>
        (case getitem doc ''prv_candidates'' of Inl e \<Rightarrow> Inl e | Inr prv \<Rightarrow>
           Inr (pop (setitem doc ''coordinates''
                      (JObj [(''radec_str'', JList [hms, dms]),
                             (''radec_geojson'',
                                JObj [(''type'', JStr ''Point''),
                                      (''coordinates'', JList [ra_geojson, dec])]),
                             (''l'', l), (''b'', b)]))
                    ''prv_candidates'',
                if prv = JNull then JList [] else prv)))))))))"

section \<open>Python helpers used by the worker\<close>

text \<open>Iterating a value: a list gives its elements, a dictionary its keys, a string its
  characters; anything else is not iterable.\<close>

definition py_iter :: "json \<Rightarrow> exn + json list" where
  "py_iter v =
     (case v of
        JList xs \<Rightarrow> Inr xs
      | JObj d \<Rightarrow> Inr (map (\<lambda>(k, x). JStr k) d)
      | JStr s \<Rightarrow> Inr (map (\<lambda>c. JStr [c]) s)
      | _ \<Rightarrow> Inl TypeError)"

text \<open>\<open>{kk: vv for kk, vv in prv_candidate.items() if vv is not None}\<close>: only a dictionary
  has \<open>items\<close>.\<close>

definition pop_nulls1 :: "json \<Rightarrow> exn + dict" where
  "pop_nulls1 v =
     (case v of JObj d \<Rightarrow> Inr (filter (\<lambda>(kk, vv). vv \<noteq> JNull) d) | _ \<Rightarrow> Inl AttributeError)"

fun pop_nulls_list :: "json list \<Rightarrow> exn + dict list" where
  "pop_nulls_list [] = Inr []"
| "pop_nulls_list (x # xs) =
     (case pop_nulls1 x of Inl e \<Rightarrow> Inl e | Inr d \<Rightarrow>
     (case pop_nulls_list xs of Inl e \<Rightarrow> Inl e | Inr ds \<Rightarrow> Inr (d # ds)))"

definition pop_nulls :: "json \<Rightarrow> exn + dict list" where
  "pop_nulls v = (case py_iter v of Inl e \<Rightarrow> Inl e | Inr xs \<Rightarrow> pop_nulls_list xs)"

fun is_substr :: "'a list \<Rightarrow> 'a list \<Rightarrow> bool" where
  "is_substr t [] = (t = [])"
| "is_substr t (c # s) = (prefix t (c # s) \<or> is_substr t s)"

text \<open>\<open>t in v\<close> for a string \<open>t\<close>: substring of a string, element of a list, key of a
  dictionary; a type error on anything else (so on null).\<close>

definition contains_str :: "string \<Rightarrow> json \<Rightarrow> exn + bool" where
  "contains_str t v =
     (case v of
        JStr s \<Rightarrow> Inr (is_substr t s)
      | JList xs \<Rightarrow> Inr (JStr t \<in> set xs)
      | JObj d \<Rightarrow> Inr (t \<in> fst ` set d)
      | _ \<Rightarrow> Inl TypeError)"

section \<open>The document store and the filesystem\<close>

text \<open>
  The primary-alert collection is the list of its documents in insertion order. The
  auxiliary collection is keyed by \<open>_id\<close> (the \<open>objectId\<close>); the worker only ever writes
  documents with the two fields below. The \<open>_id\<close> that the store gives a primary document
  is left out. A file is named by its root directory, the date string, the \<open>candid\<close> and
  the extension. Store and filesystem are reliable: their own failures (which the worker
  logs and swallows) are outside the model.
\<close>

record aux_doc =
  cross_matches :: dict
  prv_candidates :: "dict list"

datatype file_content = AvroPacket string | JsonDump dict

type_synonym path = "string \<times> string \<times> json \<times> string"

record store =
  alerts :: "dict list"
  alerts_aux :: "json \<rightharpoonup> aux_doc"
  files :: "path \<rightharpoonup> file_content"

text \<open>\<open>count_documents({'candid': candid}, limit=1) == 0\<close> is \<open>\<not> candid_in_db\<close>: a
  document matches when its \<open>candid\<close> field is the value asked for.\<close>

definition candid_in_db :: "store \<Rightarrow> json \<Rightarrow> bool" where
  "candid_in_db s c = list_ex (\<lambda>d. map_of d ''candid'' = Some c) (alerts s)"

text \<open>The store's \<open>$addToSet\<close> with \<open>$each\<close>: every item in turn is appended unless an
  equal element (same fields, same values, same order) is already in the array.\<close>

definition add_to_set :: "'a list \<Rightarrow> 'a list \<Rightarrow> 'a list" where
  "add_to_set xs ys = fold (\<lambda>y acc. if y \<in> set acc then acc else acc @ [y]) ys xs"

section \<open>Filter templates and the filter evaluator\<close>

record 'p filter_doc =
  filter_id :: json
  catalog :: string
  science_program_id :: int
  created :: int
  pipeline :: 'p

text \<open>\<open>_filter['pipeline'][0]["$match"]["candid"] = alert['candid']\<close>.\<close>

definition rebind_candid :: "json list \<Rightarrow> json \<Rightarrow> exn + json list" where
  "rebind_candid pl c =
     (case pl of
        [] \<Rightarrow> Inl IndexError
      | st # rest \<Rightarrow>
          (case st of
             JObj d \<Rightarrow>
               (case getitem d ''$match'' of
                  Inl e \<Rightarrow> Inl e
                | Inr m \<Rightarrow>
                    (case m of
                       JObj md \<Rightarrow>
                         Inr (JObj (setitem d ''$match'' (JObj (setitem md ''candid'' c))) # rest)
                     | _ \<Rightarrow> Inl TypeError))
           | _ \<Rightarrow> Inl TypeError))"

text \<open>One pass of the \<open>try\<close> body up to the aggregation; \<open>agg\<close> is the store's
  \<open>aggregate\<close> under the time budget, which raises on an execution error or a timeout.\<close>

definition run_filter ::
  "(json list \<Rightarrow> exn + json list) \<Rightarrow> json list filter_doc \<Rightarrow> json \<Rightarrow> exn + json list" where
  "run_filter agg ft c =
     (case rebind_candid (pipeline ft) c of Inl e \<Rightarrow> Inl e | Inr pl \<Rightarrow> agg pl)"

text \<open>The loop over the templates. The handler of a pass is \<open>except Exception\<close>: it logs
  and goes on to the next template; a keyboard interrupt is not caught and leaves the
  evaluator.\<close>

fun filter_loop ::
  "(json list \<Rightarrow> exn + json list) \<Rightarrow> json list filter_doc list \<Rightarrow> json \<Rightarrow>
   (json \<times> json) list \<Rightarrow> exn + (json \<times> json) list" where
  "filter_loop agg [] c passed_filters = Inr passed_filters"
| "filter_loop agg (ft # fts) c passed_filters =
     (case run_filter agg ft c of
        Inl e \<Rightarrow> if is_Exception e then filter_loop agg fts c passed_filters else Inl e
      | Inr passed_filter \<Rightarrow>
          filter_loop agg fts c
            (case passed_filter of
               [] \<Rightarrow> passed_filters
             | x # xs \<Rightarrow> setitem passed_filters (filter_id ft) x))"

text \<open>
  \<open>alert_filter__user_defined\<close>. An alert without \<open>candid\<close> makes the first pass raise
  \<open>KeyError\<close> inside the \<open>try\<close>, and the handler's log line reads \<open>alert["candid"]\<close> again,
  so the error leaves the function.
\<close>

definition alert_filter__user_defined ::
  "(json list \<Rightarrow> exn + json list) \<Rightarrow> json list filter_doc list \<Rightarrow> dict \<Rightarrow>
   exn + (json \<times> json) list" where
  "alert_filter__user_defined agg fts alert =
     (case getitem alert ''candid'' of
        Inr c \<Rightarrow> filter_loop agg fts c []
      | Inl e \<Rightarrow> if fts = [] then Inr [] else Inl e)"

text \<open>
  Loading the templates in \<open>AlertConsumer.__init__\<close>. The aggregation has three stages:
  \<open>$match\<close> on the catalog; \<open>$group\<close> with \<open>_id: 'science_program_id'\<close>, a string without
  the \<open>$\<close> of a field path and so a constant, which puts every matched template into one
  group, whose \<open>created\<close> is the maximum and whose \<open>tmp\<close> is the \<open>$last\<close> document in input
  order; \<open>$group\<close> with \<open>_id: None\<close>, which pushes every \<open>tmp\<close> into one \<open>filters\<close> array.
  An empty input gives no group.
\<close>

definition stage_match :: "string filter_doc list \<Rightarrow> string \<Rightarrow> string filter_doc list" where
  "stage_match stored cat = filter (\<lambda>d. catalog d = cat) stored"

definition stage_group_program :: "string filter_doc list \<Rightarrow> (int \<times> string filter_doc) list" where
  "stage_group_program docs =
     (if docs = [] then [] else [(Max (set (map created docs)), last docs)])"

definition stage_group_all :: "(int \<times> string filter_doc) list \<Rightarrow> string filter_doc list list" where
  "stage_group_all groups = (if groups = [] then [] else [map snd groups])"

definition latest_filters :: "string filter_doc list \<Rightarrow> string \<Rightarrow> string filter_doc list" where
  "latest_filters stored cat =
     (let res = stage_group_all (stage_group_program (stage_match stored cat))
      in if length res > 0 then hd res else [])"

text \<open>\<open>loads\<close> parses the stored pipeline string and may raise.\<close>

fun prepend_upstream ::
  "json list \<Rightarrow> (string \<Rightarrow> exn + json list) \<Rightarrow> string filter_doc list \<Rightarrow>
   exn + json list filter_doc list" where
  "prepend_upstream upstream loads [] = Inr []"
| "prepend_upstream upstream loads (d # ds) =
     (case loads (pipeline d) of
        Inl e \<Rightarrow> Inl e
      | Inr pl \<Rightarrow>
          (case prepend_upstream upstream loads ds of
             Inl e \<Rightarrow> Inl e
           | Inr fts \<Rightarrow>
               Inr (\<lparr>filter_id = filter_id d, catalog = catalog d,
                      science_program_id = science_program_id d, created = created d,
                      pipeline = upstream @ pl\<rparr> # fts)))"

definition load_filter_templates ::
  "json list \<Rightarrow> (string \<Rightarrow> exn + json list) \<Rightarrow> string filter_doc list \<Rightarrow> string \<Rightarrow>
   exn + json list filter_doc list" where
  "load_filter_templates upstream loads stored cat =
     prepend_upstream upstream loads (latest_filters stored cat)"

section \<open>The ingestion worker\<close>

text \<open>
  What rests on libraries, on the reference catalogs or on the network is a parameter:
  the \<open>utils\<close> helpers, the scorer of the machine-learning models and the point-radius
  cross-match (both catch their own errors and return a dictionary), the galaxies found
  by the elliptical match (\<open>None\<close> when the match raised), the store's aggregation, the
  loaded filter templates, the configuration switch for the downstream portal and the
  posting block itself (\<open>Some e\<close> when a request or the building of a body raises), and
  the Avro decoding of a message.
  The decoding gives the records of the message, or, when what \<open>decodeMessage\<close> returns
  cannot be iterated as records (\<open>None\<close>, the raw bytes), the error that the loop over it
  raises at once.
\<close>

record env = utils +
  alert_filter__ml :: "dict \<Rightarrow> dict"
  alert_filter__xmatch :: "dict \<Rightarrow> dict"
  clu_matches :: "dict \<Rightarrow> json list option"
  aggregate :: "store \<Rightarrow> json list \<Rightarrow> exn + json list"
  filter_templates :: "json list filter_doc list"
  post_to_skyportal :: bool
  skyportal_post :: "dict \<Rightarrow> exn option"
  decodeMessage :: "string \<Rightarrow> exn + dict list"

record opts =
  path_alerts :: string
  path_tess :: string
  datestr :: string
  save_packets :: bool

definition clu_version :: string where
  "clu_version = ''CLU_20190625''"

text \<open>\<open>alert_filter__xmatch_clu\<close>: \<open>{clu_version: matches}\<close>, or the empty dictionary when
  anything raised.\<close>

definition alert_filter__xmatch_clu :: "env \<Rightarrow> dict \<Rightarrow> dict" where
  "alert_filter__xmatch_clu ev alert =
     (case clu_matches ev alert of None \<Rightarrow> [] | Some matches \<Rightarrow> [(clu_version, JList matches)])"

text \<open>The auxiliary document: created with the cross-matches when the object is new,
  otherwise \<open>$addToSet\<close> of the prior candidates.\<close>

definition aux_upsert :: "env \<Rightarrow> store \<Rightarrow> json \<Rightarrow> dict \<Rightarrow> dict list \<Rightarrow> store" where
  "aux_upsert ev s objectId alert prv =
     (case alerts_aux s objectId of
        None \<Rightarrow>
          s\<lparr>alerts_aux := (alerts_aux s)(objectId \<mapsto>
              \<lparr>cross_matches =
                  dict_merge (alert_filter__xmatch ev alert) (alert_filter__xmatch_clu ev alert),
               prv_candidates = prv\<rparr>)\<rparr>
      | Some a \<Rightarrow>
          s\<lparr>alerts_aux := (alerts_aux s)(objectId \<mapsto>
              a\<lparr>prv_candidates := add_to_set (prv_candidates a) prv\<rparr>)\<rparr>)"

text \<open>
  The TESS dump. \<open>find({'_id': objectId}, {'cross_matches': 1}, limit=1)\<close> gives the
  auxiliary document projected to \<open>_id\<close> and \<open>cross_matches\<close>; \<open>list(...)[0]\<close> raises
  \<open>IndexError\<close> when there is none. The \<open>pop\<close> is applied to that projected document.
\<close>

definition tess_dump ::
  "opts \<Rightarrow> store \<Rightarrow> json \<Rightarrow> json \<Rightarrow> dict \<Rightarrow> dict list \<Rightarrow> exn + store \<times> dict" where
  "tess_dump ps s candid objectId alert prv =
     (case getitem alert ''candidate'' of Inl e \<Rightarrow> Inl e | Inr cand \<Rightarrow>
     (case subscr cand ''programpi'' of Inl e \<Rightarrow> Inl e | Inr programpi \<Rightarrow>
     (case contains_str ''TESS'' programpi of Inl e \<Rightarrow> Inl e | Inr tess \<Rightarrow>
      if \<not> tess then Inr (s, alert)
      else
        (let alert1 = setitem alert ''prv_candidates'' (JList (map JObj prv))
         in case alerts_aux s objectId of None \<Rightarrow> Inl IndexError | Some a \<Rightarrow>
           (let xmatches =
                  pop [(''_id'', objectId), (''cross_matches'', JObj (cross_matches a))]
                      ''CLU_20190625''
            in case getitem xmatches ''cross_matches'' of Inl e \<Rightarrow> Inl e | Inr cm \<Rightarrow>
              (let alert2 = setitem alert1 ''cross_matches'' cm
               in Inr (if save_packets ps
                       then s\<lparr>files := (files s)((path_tess ps, datestr ps, candid, ''.json'')
                                                    \<mapsto> JsonDump alert2)\<rparr>
                       else s,
                       alert2)))))))"

text \<open>
  The body of the loop over the records of a message, for a record that passed the
  dedupe check. The result is the store reached and the error that ended the record, if
  any: writes made before the error stay.
\<close>

definition ingest ::
  "env \<Rightarrow> opts \<Rightarrow> string \<Rightarrow> store \<Rightarrow> dict \<Rightarrow> json \<Rightarrow> json \<Rightarrow> store \<times> exn option" where
  "ingest ev ps raw s record candid objectId =
     (let s1 = (if save_packets ps
                then s\<lparr>files := (files s)((path_alerts ps, datestr ps, candid, ''.avro'')
                                             \<mapsto> AvroPacket raw)\<rparr>
                else s)
      in case alert_mongify ev record of Inl e \<Rightarrow> (s1, Some e) | Inr (alert0, prv0) \<Rightarrow>
        (let alert = setitem alert0 ''classifications'' (JObj (alert_filter__ml ev record));
             s2 = s1\<lparr>alerts := alerts s1 @ [alert]\<rparr>
         in case pop_nulls prv0 of Inl e \<Rightarrow> (s2, Some e) | Inr prv \<Rightarrow>
           (let s3 = aux_upsert ev s2 objectId alert prv
            in case tess_dump ps s3 candid objectId alert prv of
                 Inl e \<Rightarrow> (s3, Some e)
               | Inr (s4, alert') \<Rightarrow>
                   (case alert_filter__user_defined (aggregate ev s4) (filter_templates ev) alert' of
                      Inl e \<Rightarrow> (s4, Some e)
                    | Inr passed_filters \<Rightarrow>
                        if post_to_skyportal ev then (s4, skyportal_post ev alert')
                        else (s4, None)))))"

definition process_record ::
  "env \<Rightarrow> opts \<Rightarrow> string \<Rightarrow> store \<Rightarrow> dict \<Rightarrow> store \<times> exn option" where
  "process_record ev ps raw s record =
     (case getitem record ''candid'' of Inl e \<Rightarrow> (s, Some e) | Inr candid \<Rightarrow>
     (case getitem record ''objectId'' of Inl e \<Rightarrow> (s, Some e) | Inr objectId \<Rightarrow>
      if candid_in_db s candid then (s, None)
      else ingest ev ps raw s record candid objectId))"

text \<open>The \<open>for\<close> loop sits inside one \<open>try\<close>: the first error ends the whole message.\<close>

fun process_records ::
  "env \<Rightarrow> opts \<Rightarrow> string \<Rightarrow> store \<Rightarrow> dict list \<Rightarrow> store \<times> exn option" where
  "process_records ev ps raw s [] = (s, None)"
| "process_records ev ps raw s (r # rs) =
     (case process_record ev ps raw s r of
        (s', None) \<Rightarrow> process_records ev ps raw s' rs
      | (s', Some e) \<Rightarrow> (s', Some e))"

record kafka_msg =
  msg_error :: bool
  msg_value :: string

text \<open>What a call of \<open>poll\<close> does: it returns, having logged the error that ended the
  message if there was one, or it raises.\<close>

datatype outcome = Returned "exn option" | Raised exn

text \<open>
  \<open>AlertConsumer.poll\<close>. On no message the condition is printed, and the next statement,
  \<open>if msg.error():\<close>, is evaluated on \<open>None\<close>, an attribute error outside any \<open>try\<close>.
  The decoding and the loop over the records are inside one \<open>try\<close> whose handler is
  \<open>except Exception\<close>: it logs the error and \<open>poll\<close> returns; a keyboard interrupt is not
  caught and leaves \<open>poll\<close>.
\<close>

definition poll :: "env \<Rightarrow> opts \<Rightarrow> store \<Rightarrow> kafka_msg option \<Rightarrow> store \<times> outcome" where
  "poll ev ps s m =
     (case m of
        None \<Rightarrow> (s, Raised AttributeError)
      | Some msg \<Rightarrow>
          if msg_error msg then (s, Raised EopError)
          else
            (case (case decodeMessage ev (msg_value msg) of
                     Inl e \<Rightarrow> (s, Some e)
                   | Inr records \<Rightarrow> process_records ev ps (msg_value msg) s records) of
               (s', None) \<Rightarrow> (s', Returned None)
             | (s', Some e) \<Rightarrow>
                 (s', if is_Exception e then Returned (Some e) else Raised e)))"

section \<open>The listener\<close>

record worker =
  num_partitions :: int
  num_disconnected_partitions :: int

text \<open>The assignment callback adds one per assigned partition; the error callback counts
  the errors with code \<open>-195\<close> and exits the process when the count meets the number of
  partitions (the result's second component).\<close>

definition on_assign :: "worker \<Rightarrow> nat \<Rightarrow> worker" where
  "on_assign w n = w\<lparr>num_partitions := num_partitions w + int n\<rparr>"

definition error_cb :: "worker \<Rightarrow> int \<Rightarrow> worker \<times> bool" where
  "error_cb w code =
     (if code = - 195
      then let w' = w\<lparr>num_disconnected_partitions := num_disconnected_partitions w + 1\<rparr>
           in (w', num_disconnected_partitions w' = num_partitions w')
      else (w, False))"

text \<open>The handlers of the listener's loop, in their order: does the process exit?\<close>

definition handler_exits :: "bool \<Rightarrow> exn \<Rightarrow> bool" where
  "handler_exits test e =
     (case e of
        EopError \<Rightarrow> test
      | IndexError \<Rightarrow> False
      | UnicodeDecodeError \<Rightarrow> False
      | KeyboardInterrupt \<Rightarrow> True
      | _ \<Rightarrow> True)"

datatype event = OnAssign nat | ErrorCb int | Poll "kafka_msg option"

datatype status = Running | Exited

text \<open>
  The \<open>while True\<close> loop of \<open>listener\<close>, run on what the broker does: the list is a finite
  prefix of it, and \<open>Running\<close> says that the loop is still polling at its end.
\<close>

fun listener ::
  "bool \<Rightarrow> env \<Rightarrow> opts \<Rightarrow> worker \<Rightarrow> store \<Rightarrow> event list \<Rightarrow> status \<times> worker \<times> store" where
  "listener test ev ps w s [] = (Running, w, s)"
| "listener test ev ps w s (OnAssign n # evs) = listener test ev ps (on_assign w n) s evs"
| "listener test ev ps w s (ErrorCb code # evs) =
     (case error_cb w code of
        (w', True) \<Rightarrow> (Exited, w', s)
      | (w', False) \<Rightarrow> listener test ev ps w' s evs)"
| "listener test ev ps w s (Poll m # evs) =
     (case poll ev ps s m of
        (s', Returned r) \<Rightarrow> listener test ev ps w s' evs
      | (s', Raised e) \<Rightarrow>
          if handler_exits test e then (Exited, w, s') else listener test ev ps w s' evs)"

section \<open>The auth middleware\<close>

text \<open>
  The header value is a Python string whose characters \<open>lower\<close> and \<open>split\<close> look at: it
  is the list of its code points. \<open>ustr\<close> gives the code points of an ASCII literal.
\<close>

type_synonym ustring = "nat list"

definition ustr :: "string \<Rightarrow> ustring" where
  "ustr s = map of_char s"

record request =
  authorization :: "ustring option"
  user :: json

text \<open>\<open>jwt.decode\<close> is a parameter: it gives the payload or raises; \<open>OtherJwtError\<close> stands
  for any error other than the two that the middleware catches.\<close>

datatype jwt_result = DecodeError | ExpiredSignatureError | OtherJwtError | Payload dict

datatype 'r response = JsonResponse nat | Handled 'r | Unhandled exn

definition truthy :: "json \<Rightarrow> bool" where
  "truthy v =
     (case v of
        JNull \<Rightarrow> False
      | JBool b \<Rightarrow> b
      | JInt i \<Rightarrow> i \<noteq> 0
      | JNum r \<Rightarrow> r \<noteq> 0
      | JStr s \<Rightarrow> s \<noteq> []
      | JList xs \<Rightarrow> xs \<noteq> []
      | JObj d \<Rightarrow> d \<noteq> [])"

text \<open>
  \<open>str.lower\<close> is used only to look for \<open>'bearer'\<close>. It turns \<open>A\<close> to \<open>Z\<close> into \<open>a\<close> to \<open>z\<close>;
  of all other characters, the only ones whose lowercase form has an ASCII letter are
  U+0130 (an \<open>i\<close>) and U+212A (a \<open>k\<close>), neither a letter of \<open>'bearer'\<close>. So lowering \<open>A\<close> to
  \<open>Z\<close> and leaving the rest decides the test as Python does.
\<close>

definition lower_cp :: "nat \<Rightarrow> nat" where
  "lower_cp c = (if 65 \<le> c \<and> c \<le> 90 then c + 32 else c)"

text \<open>The characters that \<open>str.split()\<close> takes for whitespace.\<close>

definition is_space :: "nat \<Rightarrow> bool" where
  "is_space c =
     (c \<in> set [0x09, 0x0A, 0x0B, 0x0C, 0x0D, 0x1C, 0x1D, 0x1E, 0x1F, 0x20, 0x85, 0xA0,
                0x1680, 0x2000, 0x2001, 0x2002, 0x2003, 0x2004, 0x2005, 0x2006, 0x2007,
                0x2008, 0x2009, 0x200A, 0x2028, 0x2029, 0x202F, 0x205F, 0x3000])"

text \<open>\<open>str.split()\<close>: the maximal runs of characters that are not whitespace.\<close>

fun split_acc :: "ustring \<Rightarrow> ustring \<Rightarrow> ustring list" where
  "split_acc w [] = (if w = [] then [] else [w])"
| "split_acc w (c # cs) =
     (if is_space c then (if w = [] then split_acc [] cs else w # split_acc [] cs)
      else split_acc (w @ [c]) cs)"

definition split_ws :: "ustring \<Rightarrow> ustring list" where
  "split_ws s = split_acc [] s"

text \<open>\<open>if 'bearer' in jwt_token.lower(): jwt_token = jwt_token.split()[1]\<close>.\<close>

definition bearer_token :: "ustring \<Rightarrow> exn + ustring" where
  "bearer_token h =
     (if is_substr (ustr ''bearer'') (map lower_cp h)
      then (case split_ws h of a # b # rest \<Rightarrow> Inr b | _ \<Rightarrow> Inl IndexError)
      else Inr h)"

text \<open>\<open>auth_middleware\<close>: only the two listed errors of the decoding are caught.\<close>

definition auth_middleware ::
  "(ustring \<Rightarrow> jwt_result) \<Rightarrow> request \<Rightarrow> (request \<Rightarrow> 'r response) \<Rightarrow> 'r response" where
  "auth_middleware jwt_decode req handler =
     (let req0 = req\<lparr>user := JNull\<rparr>
      in case authorization req of
           None \<Rightarrow> handler req0
         | Some jwt_token \<Rightarrow>
             if jwt_token = [] then handler req0
             else
               (case bearer_token jwt_token of
                  Inl e \<Rightarrow> Unhandled e
                | Inr tok \<Rightarrow>
                    (case jwt_decode tok of
                       DecodeError \<Rightarrow> JsonResponse 400
                     | ExpiredSignatureError \<Rightarrow> JsonResponse 400
                     | OtherJwtError \<Rightarrow> Unhandled (OtherError ''jwt'')
                     | Payload payload \<Rightarrow>
                         (case getitem payload ''user_id'' of
                            Inl e \<Rightarrow> Unhandled e
                          | Inr u \<Rightarrow> handler (req0\<lparr>user := u\<rparr>)))))"

definition auth_required :: "(request \<Rightarrow> 'r response) \<Rightarrow> request \<Rightarrow> 'r response" where
  "auth_required func req = (if \<not> truthy (user req) then JsonResponse 401 else func req)"

definition admin_required ::
  "string \<Rightarrow> (request \<Rightarrow> 'r response) \<Rightarrow> request \<Rightarrow> 'r response" where
  "admin_required admin func req =
     (if \<not> truthy (user req) then JsonResponse 401
      else if user req \<noteq> JStr admin then JsonResponse 403
      else func req)"

section \<open>Example inputs\<close>

text \<open>Helpers that always succeed, and the alert of the first end-to-end scenario with
  a null \<open>prv_candidates\<close>; the same alert without the field.\<close>

definition utils0 :: utils where
  "utils0 = \<lparr>deg2hms = (\<lambda>v. Inr (JStr ''hms'')), deg2dms = (\<lambda>v. Inr (JStr ''dms'')),
             radec2lb = (\<lambda>a d. Inr (JNum 0, JNum 0))\<rparr>"

definition candidate1001 :: dict where
  "candidate1001 = [(''ra'', JNum 10), (''dec'', JNum 20), (''programpi'', JStr ''ZTF'')]"

definition alert1001 :: dict where
  "alert1001 =
     [(''candid'', JInt 1001), (''objectId'', JStr ''ZTF01''),
      (''candidate'', JObj candidate1001), (''prv_candidates'', JNull)]"

definition alert_no_prv :: dict where
  "alert_no_prv =
     [(''candid'', JInt 1001), (''objectId'', JStr ''ZTF01''),
      (''candidate'', JObj candidate1001)]"

text \<open>
  A second and a third alert of the object \<open>ZTF01\<close>, whose prior candidates share the
  \<open>candid\<close> 900 and differ in \<open>magpsf\<close>; an alert whose \<open>programpi\<close> is null; an alert of
  a TESS program; a decoder giving the records of five messages, the last with two
  records; an environment where every collaborator succeeds, no filter is loaded and
  nothing is posted downstream.
\<close>

definition alert1002 :: dict where
  "alert1002 =
     [(''candid'', JInt 1002), (''objectId'', JStr ''ZTF01''),
      (''candidate'', JObj candidate1001),
      (''prv_candidates'',
         JList [JObj [(''candid'', JInt 900), (''magpsf'', JNum 18), (''null_field'', JNull)]])]"

definition alert1003 :: dict where
  "alert1003 =
     [(''candid'', JInt 1003), (''objectId'', JStr ''ZTF01''),
      (''candidate'', JObj candidate1001),
      (''prv_candidates'', JList [JObj [(''candid'', JInt 900), (''magpsf'', JNum 19)]])]"

definition alert3001 :: dict where
  "alert3001 =
     [(''candid'', JInt 3001), (''objectId'', JStr ''ZTF03''),
      (''candidate'', JObj [(''ra'', JNum 10), (''dec'', JNum 20), (''programpi'', JNull)]),
      (''prv_candidates'', JNull)]"

definition alert2000 :: dict where
  "alert2000 =
     [(''candid'', JInt 2000), (''objectId'', JStr ''ZTF02''),
      (''candidate'',
         JObj [(''ra'', JNum 10), (''dec'', JNum 20),
               (''programpi'', JStr ''TESS Guest Investigator'')]),
      (''prv_candidates'', JNull)]"

definition decode0 :: "string \<Rightarrow> exn + dict list" where
  "decode0 raw =
     (case map_of [(''m1001'', [alert1001]), (''m1002'', [alert1002]), (''m1003'', [alert1003]),
                   (''m2000'', [alert2000]), (''m3001'', [alert3001, alert1001])] raw of
        None \<Rightarrow> Inl TypeError
      | Some records \<Rightarrow> Inr records)"

definition env0 :: env where
  "env0 = \<lparr>deg2hms = (\<lambda>v. Inr (JStr ''hms'')), deg2dms = (\<lambda>v. Inr (JStr ''dms'')),
            radec2lb = (\<lambda>a d. Inr (JNum 0, JNum 0)),
            alert_filter__ml = (\<lambda>r. []), alert_filter__xmatch = (\<lambda>a. []),
            clu_matches = (\<lambda>a. Some []), aggregate = (\<lambda>s pl. Inr []),
            filter_templates = [], post_to_skyportal = False,
            skyportal_post = (\<lambda>a. None), decodeMessage = decode0\<rparr>"

definition opts0 :: opts where
  "opts0 = \<lparr>path_alerts = ''/alerts'', path_tess = ''/tess'', datestr = ''20200101'',
             save_packets = True\<rparr>"

definition store0 :: store where
  "store0 = \<lparr>alerts = [], alerts_aux = Map.empty, files = Map.empty\<rparr>"

text \<open>A message without error whose bytes are the given string.\<close>

definition msg :: "string \<Rightarrow> kafka_msg" where
  "msg raw = \<lparr>msg_error = False, msg_value = raw\<rparr>"

definition worker0 :: worker where
  "worker0 = \<lparr>num_partitions = 0, num_disconnected_partitions = 0\<rparr>"

text \<open>A store in which \<open>ZTF01\<close> has an auxiliary document with one prior candidate.\<close>

definition aux1 :: aux_doc where
  "aux1 = \<lparr>cross_matches = [(''CLU_20190625'', JList [])],
           prv_candidates = [[(''candid'', JInt 900), (''magpsf'', JNum 18)]]\<rparr>"

definition store1 :: store where
  "store1 = \<lparr>alerts = [], alerts_aux = [JStr ''ZTF01'' \<mapsto> aux1], files = Map.empty\<rparr>"

text \<open>An end-of-partition message; an upstream pipeline, a parser and two stored
  filter templates of two science programs; filter templates with a given pipeline; an
  aggregation that times out on a pipeline of more than one stage, finds two documents
  for the \<open>$match\<close> stage bound to the \<open>candid\<close> 1001, one for that stage with a further
  condition, and none otherwise; four templates, the second with an empty pipeline and
  the third with two stages.\<close>

definition eop_msg :: kafka_msg where
  "eop_msg = \<lparr>msg_error = True, msg_value = []\<rparr>"

definition match_stage :: json where
  "match_stage = JObj [(''$match'', JObj [(''candid'', JNull)])]"

definition upstream0 :: "json list" where
  "upstream0 = [match_stage, JObj [(''$project'', JObj [(''cutoutScience'', JInt 0)])]]"

definition loads0 :: "string \<Rightarrow> exn + json list" where
  "loads0 str = Inr [JObj [(''$match'', JObj [(''candidate.rb'', JStr str)])]]"

definition stored1 :: "string filter_doc" where
  "stored1 = \<lparr>filter_id = JInt 1, catalog = ''ZTF_alerts'', science_program_id = 1,
              created = 10, pipeline = ''0.5''\<rparr>"

definition stored2 :: "string filter_doc" where
  "stored2 = \<lparr>filter_id = JInt 2, catalog = ''ZTF_alerts'', science_program_id = 2,
              created = 20, pipeline = ''0.9''\<rparr>"







text \<open>A token decoder knowing seven tokens, a request with a given header, and a handler
  that answers with the user bound on the request.\<close>

definition jwt0 :: "ustring \<Rightarrow> jwt_result" where
  "jwt0 tok =
     (if tok = ustr ''good'' then Payload [(''user_id'', JStr ''admin'')]
      else if tok = ustr ''user'' then Payload [(''user_id'', JStr ''alice'')]
      else if tok = ustr ''anon'' then Payload [(''user_id'', JStr [])]
      else if tok = ustr ''nouser'' then Payload [(''sub'', JStr ''alice'')]
      else if tok = ustr ''old'' then ExpiredSignatureError
      else if tok = ustr ''alg'' then OtherJwtError
      else DecodeError)"

definition request0 :: "ustring option \<Rightarrow> request" where
  "request0 h = \<lparr>authorization = h, user = JNull\<rparr>"

definition handler0 :: "request \<Rightarrow> json response" where
  "handler0 req = Handled (user req)"

text \<open>The header \<open>Bearer\<close>, a no-break space, \<open>good bad\<close>.\<close>

definition header_nbsp :: ustring where
  "header_nbsp = ustr ''Bearer'' @ [0xA0] @ ustr ''good bad''"

section \<open>Basic facts about dictionaries\<close>

lemma map_of_setitem: "map_of (setitem d k v) k' = (if k' = k then Some v else map_of d k')"
proof (cases "k \<in> fst ` set d")
  case True
  have "map_of (map (\<lambda>(k', v'). if k' = k then (k', v) else (k', v')) d) k'
        = (if k' = k then (if k \<in> fst ` set d then Some v else None) else map_of d k')"
    by (induction d) (force simp: image_iff)+
  with True show ?thesis by (simp add: setitem_def)
next
  case False
  then have "map_of d k = None" by (simp add: map_of_eq_None_iff)
  with False show ?thesis by (auto simp: setitem_def map_add_def split: option.splits)
qed

lemma map_of_pop: "map_of (pop d k) k' = (if k' = k then None else map_of d k')"
  unfolding pop_def by (induction d) auto

lemma getitem_setitem:
  "getitem (setitem d k v) k' = (if k' = k then Inr v else getitem d k')"
  by (simp add: getitem_def map_of_setitem)

lemma getitem_Inr_iff: "getitem d k = Inr v \<longleftrightarrow> map_of d k = Some v"
  by (simp add: getitem_def split: option.splits)

lemmas ex_defs = alert1001_def alert1002_def alert1003_def alert2000_def alert3001_def
  candidate1001_def decode0_def env0_def opts0_def store0_def msg_def worker0_def

lemmas model_defs = poll_def process_record_def ingest_def alert_mongify_def getitem_def
  subscr_def sub180_def map_of_setitem map_of_pop candid_in_db_def pop_nulls_def py_iter_def
  pop_nulls1_def aux_upsert_def tess_dump_def contains_str_def alert_filter__user_defined_def
  alert_filter__xmatch_clu_def dict_merge_def clu_version_def is_Exception_def

section \<open>Facts about the store operations\<close>


lemma add_to_set_Nil: "add_to_set xs [] = xs" by (simp add: add_to_set_def)

lemma add_to_set_Cons:
  "add_to_set xs (y # ys) = add_to_set (if y \<in> set xs then xs else xs @ [y]) ys"
  by (simp add: add_to_set_def)

lemma add_to_set_prefix: "prefix xs (add_to_set xs ys)"
proof (induction ys arbitrary: xs)
  case Nil
  show ?case by (simp add: add_to_set_Nil)
next
  case (Cons y ys)
  have "prefix xs (if y \<in> set xs then xs else xs @ [y])" by simp
  also have "prefix \<dots> (add_to_set (if y \<in> set xs then xs else xs @ [y]) ys)"
    by (rule Cons.IH)
  finally show ?case by (simp only: add_to_set_Cons)
qed

lemma add_to_set_distinct: "distinct xs \<Longrightarrow> distinct (add_to_set xs ys)"
  by (induction ys arbitrary: xs) (simp_all add: add_to_set_Nil add_to_set_Cons)

lemma add_to_set_set: "set (add_to_set xs ys) = set xs \<union> set ys"
  by (induction ys arbitrary: xs) (auto simp: add_to_set_Nil add_to_set_Cons)

lemma add_to_set_absorb: "set ys \<subseteq> set xs \<Longrightarrow> add_to_set xs ys = xs"
  by (induction ys arbitrary: xs) (simp_all add: add_to_set_Nil add_to_set_Cons)

lemma add_to_set_idem: "add_to_set (add_to_set xs ys) ys = add_to_set xs ys"
  by (rule add_to_set_absorb) (simp add: add_to_set_set)

lemma alerts_upsert [simp]: "alerts (aux_upsert ev s oid a p) = alerts s"
  by (simp add: aux_upsert_def split: option.splits)

lemma aux_upsert_other:
  "oid' \<noteq> oid \<Longrightarrow> alerts_aux (aux_upsert ev s oid a p) oid' = alerts_aux s oid'"
  by (simp add: aux_upsert_def split: option.splits)

lemma aux_upsert_existing:
  "alerts_aux s oid = Some d \<Longrightarrow>
   alerts_aux (aux_upsert ev s oid a p) oid
     = Some (d\<lparr>prv_candidates := add_to_set (prv_candidates d) p\<rparr>)"
  by (simp add: aux_upsert_def)

lemma aux_upsert_new:
  "alerts_aux s oid = None \<Longrightarrow>
   alerts_aux (aux_upsert ev s oid a p) oid
     = Some \<lparr>cross_matches =
               dict_merge (alert_filter__xmatch ev a) (alert_filter__xmatch_clu ev a),
             prv_candidates = p\<rparr>"
  by (simp add: aux_upsert_def)

lemma tess_dump_store:
  "tess_dump ps s c oid a p = Inr (s', a') \<Longrightarrow>
   alerts s' = alerts s \<and> alerts_aux s' = alerts_aux s"
  by (auto simp: tess_dump_def Let_def split: sum.splits if_splits option.splits)

lemma alert_mongify_candid:
  "alert_mongify u r = Inr (doc, prv) \<Longrightarrow> map_of doc ''candid'' = map_of r ''candid''"
  by (auto simp: alert_mongify_def Let_def map_of_pop map_of_setitem split: sum.splits prod.splits)

lemma ingest_alerts:
  assumes "ingest ev ps raw s r c oid = (s', res)"
  shows "(\<exists>e. res = Some e \<and> alerts s' = alerts s) \<or>
         (\<exists>alert0 prv0. alert_mongify ev r = Inr (alert0, prv0) \<and>
            alerts s' = alerts s @ [setitem alert0 ''classifications'' (JObj (alert_filter__ml ev r))])"
  using assms
  by (auto simp: ingest_def Let_def split: sum.splits prod.splits if_splits dest!: tess_dump_store)


lemma candid_in_db_iff:
  "candid_in_db s c \<longleftrightarrow> (\<exists>d\<in>set (alerts s). map_of d ''candid'' = Some c)"
  by (simp add: candid_in_db_def list_ex_iff)

lemma ingest_candid_in_db:
  assumes "ingest ev ps raw s r c oid = (s', None)" and "map_of r ''candid'' = Some c"
  shows "candid_in_db s' c"
proof -
  from ingest_alerts [OF assms(1)] obtain alert0 prv0 where
    m: "alert_mongify ev r = Inr (alert0, prv0)" and
    a: "alerts s' = alerts s @ [setitem alert0 ''classifications'' (JObj (alert_filter__ml ev r))]"
    by auto
  have "map_of (setitem alert0 ''classifications'' (JObj (alert_filter__ml ev r))) ''candid''
        = Some c"
    using alert_mongify_candid [OF m] assms(2) by (simp add: map_of_setitem)
  with a show ?thesis by (auto simp: candid_in_db_iff)
qed

lemma process_record_alerts_mono:
  "process_record ev ps raw s r = (s', res) \<Longrightarrow> set (alerts s) \<subseteq> set (alerts s')"
  by (auto simp: process_record_def split: sum.splits if_splits dest!: ingest_alerts)

lemma process_record_done:
  assumes "process_record ev ps raw s r = (s', None)"
  shows "\<exists>c oid. map_of r ''candid'' = Some c \<and> map_of r ''objectId'' = Some oid
            \<and> candid_in_db s' c"
  using assms
  by (auto simp: process_record_def getitem_Inr_iff split: sum.splits if_splits
           dest: ingest_candid_in_db)

lemma process_record_skip:
  assumes "map_of r ''candid'' = Some c" and "map_of r ''objectId'' = Some oid"
    and "candid_in_db s c"
  shows "process_record ev ps raw s r = (s, None)"
  using assms by (simp add: process_record_def getitem_def)

lemma process_records_alerts_mono:
  "process_records ev ps raw s rs = (s', res) \<Longrightarrow> set (alerts s) \<subseteq> set (alerts s')"
proof (induction rs arbitrary: s)
  case Nil
  then show ?case by simp
next
  case (Cons r rs)
  obtain s1 r1 where p: "process_record ev ps raw s r = (s1, r1)" by (cases "process_record ev ps raw s r")
  show ?case
  proof (cases r1)
    case None
    with Cons.prems p have "process_records ev ps raw s1 rs = (s', res)" by simp
    from Cons.IH [OF this] process_record_alerts_mono [OF p] show ?thesis by blast
  next
    case (Some e)
    with Cons.prems p have "s' = s1" by simp
    with process_record_alerts_mono [OF p] show ?thesis by simp
  qed
qed

lemma candid_in_db_mono:
  "set (alerts s) \<subseteq> set (alerts s') \<Longrightarrow> candid_in_db s c \<Longrightarrow> candid_in_db s' c"
  by (auto simp: candid_in_db_iff)

lemma process_records_done:
  assumes "process_records ev ps raw s rs = (s', None)"
  shows "\<forall>r\<in>set rs. \<exists>c oid. map_of r ''candid'' = Some c \<and> map_of r ''objectId'' = Some oid
            \<and> candid_in_db s' c"
  using assms
proof (induction rs arbitrary: s)
  case Nil
  then show ?case by simp
next
  case (Cons r rs)
  obtain s1 r1 where p: "process_record ev ps raw s r = (s1, r1)" by (cases "process_record ev ps raw s r")
  with Cons.prems have r1: "r1 = None" and rest: "process_records ev ps raw s1 rs = (s', None)"
    by (auto split: option.splits)
  from process_record_done p r1 obtain c oid where
    c: "map_of r ''candid'' = Some c" "map_of r ''objectId'' = Some oid" "candid_in_db s1 c"
    by blast
  from candid_in_db_mono [OF process_records_alerts_mono [OF rest] c(3)] c(1,2)
  have "\<exists>c oid. map_of r ''candid'' = Some c \<and> map_of r ''objectId'' = Some oid
            \<and> candid_in_db s' c" by blast
  with Cons.IH [OF rest] show ?case by simp
qed

lemma process_records_all_skipped:
  assumes "\<forall>r\<in>set rs. \<exists>c oid. map_of r ''candid'' = Some c \<and> map_of r ''objectId'' = Some oid
            \<and> candid_in_db s c"
  shows "process_records ev ps raw s rs = (s, None)"
  using assms by (induction rs) (auto simp: process_record_skip)

lemma add_to_set_append: "add_to_set (add_to_set xs ys) zs = add_to_set xs (ys @ zs)"
  by (simp add: add_to_set_def)

lemma aux_upsert_grows:
  assumes "alerts_aux s oid = Some a"
  shows "\<exists>ys. alerts_aux (aux_upsert ev s oid' al p) oid
           = Some (a\<lparr>prv_candidates := add_to_set (prv_candidates a) ys\<rparr>)"
proof (cases "oid = oid'")
  case True
  with assms aux_upsert_existing [of s oid a ev al p] show ?thesis by blast
next
  case False
  have "a = a\<lparr>prv_candidates := add_to_set (prv_candidates a) []\<rparr>"
    by (simp add: add_to_set_Nil)
  with False assms aux_upsert_other [of oid oid' ev s al p] show ?thesis by metis
qed

lemma alerts_aux_upsert:
  "alerts_aux (aux_upsert ev s oid al p) =
     (case alerts_aux s oid of
        None \<Rightarrow> (alerts_aux s)(oid \<mapsto>
            \<lparr>cross_matches =
                dict_merge (alert_filter__xmatch ev al) (alert_filter__xmatch_clu ev al),
             prv_candidates = p\<rparr>)
      | Some a \<Rightarrow> (alerts_aux s)(oid \<mapsto>
            a\<lparr>prv_candidates := add_to_set (prv_candidates a) p\<rparr>))"
  by (simp add: aux_upsert_def split: option.splits)

lemma alerts_aux_upsert_cong:
  "alerts_aux s1 = alerts_aux s2 \<Longrightarrow>
   alerts_aux (aux_upsert ev s1 oid al p) = alerts_aux (aux_upsert ev s2 oid al p)"
  by (auto simp: alerts_aux_upsert split: option.splits)

lemma ingest_aux_cases:
  assumes "ingest ev ps raw s r c oid' = (s', res)"
  shows "alerts_aux s' = alerts_aux s \<or>
         (\<exists>al p. alerts_aux s' = alerts_aux (aux_upsert ev s oid' al p))"
proof -
  define s1 where "s1 = (if save_packets ps
      then s\<lparr>files := (files s)((path_alerts ps, datestr ps, c, ''.avro'') \<mapsto> AvroPacket raw)\<rparr>
      else s)"
  have a1: "alerts_aux s1 = alerts_aux s" by (simp add: s1_def)
  show ?thesis
  proof (cases "alert_mongify ev r")
    case (Inl e)
    with assms have "s' = s1" by (simp add: ingest_def s1_def)
    with a1 show ?thesis by simp
  next
    case (Inr p0)
    obtain alert0 prv0 where p0: "p0 = (alert0, prv0)" by (cases p0)
    define al where "al = setitem alert0 ''classifications'' (JObj (alert_filter__ml ev r))"
    define s2 where "s2 = s1\<lparr>alerts := alerts s1 @ [al]\<rparr>"
    have a2: "alerts_aux s2 = alerts_aux s" by (simp add: s2_def a1)
    show ?thesis
    proof (cases "pop_nulls prv0")
      case (Inl e)
      with assms Inr p0 have "s' = s2"
        by (simp add: ingest_def Let_def s1_def s2_def al_def)
      with a2 show ?thesis by simp
    next
      case prv: (Inr prv)
      define s3 where "s3 = aux_upsert ev s2 oid' al prv"
      have a3: "alerts_aux s3 = alerts_aux (aux_upsert ev s oid' al prv)"
        unfolding s3_def by (rule alerts_aux_upsert_cong [OF a2])
      have "alerts_aux s' = alerts_aux s3"
        using assms Inr p0 prv
        by (auto simp: ingest_def Let_def s1_def s2_def s3_def al_def
              split: sum.splits prod.splits if_splits dest!: tess_dump_store)
      with a3 show ?thesis by auto
    qed
  qed
qed

lemma ingest_aux_grows:
  assumes "ingest ev ps raw s r c oid' = (s', res)" and "alerts_aux s oid = Some a"
  shows "\<exists>ys. alerts_aux s' oid = Some (a\<lparr>prv_candidates := add_to_set (prv_candidates a) ys\<rparr>)"
proof -
  from ingest_aux_cases [OF assms(1)] show ?thesis
  proof
    assume "alerts_aux s' = alerts_aux s"
    with assms(2) have "alerts_aux s' oid
        = Some (a\<lparr>prv_candidates := add_to_set (prv_candidates a) []\<rparr>)"
      by (simp add: add_to_set_Nil)
    then show ?thesis ..
  next
    assume "\<exists>al p. alerts_aux s' = alerts_aux (aux_upsert ev s oid' al p)"
    then obtain al p where "alerts_aux s' = alerts_aux (aux_upsert ev s oid' al p)" by blast
    with aux_upsert_grows [OF assms(2), of ev oid' al p] show ?thesis by simp
  qed
qed

lemma process_record_aux_grows:
  assumes "process_record ev ps raw s r = (s', res)" and "alerts_aux s oid = Some a"
  shows "\<exists>ys. alerts_aux s' oid = Some (a\<lparr>prv_candidates := add_to_set (prv_candidates a) ys\<rparr>)"
proof -
  have same: "s' = s \<Longrightarrow> ?thesis"
  proof -
    assume "s' = s"
    with assms(2) have "alerts_aux s' oid
        = Some (a\<lparr>prv_candidates := add_to_set (prv_candidates a) []\<rparr>)"
      by (simp add: add_to_set_Nil)
    then show ?thesis ..
  qed
  from assms(1) have "s' = s \<or> (\<exists>c o'. ingest ev ps raw s r c o' = (s', res))"
    by (auto simp: process_record_def split: sum.splits if_splits)
  then show ?thesis using same ingest_aux_grows [OF _ assms(2)] by blast
qed

lemma process_records_aux_grows:
  assumes "process_records ev ps raw s rs = (s', res)" and "alerts_aux s oid = Some a"
  shows "\<exists>ys. alerts_aux s' oid = Some (a\<lparr>prv_candidates := add_to_set (prv_candidates a) ys\<rparr>)"
  using assms
proof (induction rs arbitrary: s a)
  case Nil
  then have "alerts_aux s' oid = Some (a\<lparr>prv_candidates := add_to_set (prv_candidates a) []\<rparr>)"
    by (simp add: add_to_set_Nil)
  then show ?case ..
next
  case (Cons r rs)
  obtain s1 r1 where p: "process_record ev ps raw s r = (s1, r1)"
    by (cases "process_record ev ps raw s r")
  from process_record_aux_grows [OF p Cons.prems(2)] obtain ys where
    s1: "alerts_aux s1 oid = Some (a\<lparr>prv_candidates := add_to_set (prv_candidates a) ys\<rparr>)"
    by blast
  show ?case
  proof (cases r1)
    case None
    with Cons.prems(1) p have "process_records ev ps raw s1 rs = (s', res)" by simp
    from Cons.IH [OF this s1] obtain zs where
      "alerts_aux s' oid = Some (a\<lparr>prv_candidates := add_to_set (prv_candidates a) (ys @ zs)\<rparr>)"
      by (auto simp: add_to_set_append)
    then show ?thesis ..
  next
    case (Some e)
    with Cons.prems(1) p have "s' = s1" by simp
    with s1 show ?thesis by blast
  qed
qed

lemma poll_aux_grows:
  assumes "poll ev ps s m = (s', out)" and "alerts_aux s oid = Some a"
  shows "\<exists>ys. alerts_aux s' oid = Some (a\<lparr>prv_candidates := add_to_set (prv_candidates a) ys\<rparr>)"
proof -
  have same: "s' = s \<Longrightarrow> ?thesis"
  proof -
    assume "s' = s"
    with assms(2) have "alerts_aux s' oid
        = Some (a\<lparr>prv_candidates := add_to_set (prv_candidates a) []\<rparr>)"
      by (simp add: add_to_set_Nil)
    then show ?thesis ..
  qed
  from assms(1) have "s' = s \<or> (\<exists>raw rs res. process_records ev ps raw s rs = (s', res))"
    by (auto simp: poll_def split: option.splits if_splits sum.splits prod.splits)
  then show ?thesis using same process_records_aux_grows [OF _ assms(2)] by blast
qed

lemma listener_aux_grows:
  assumes "listener test ev ps w s evs = (st, w', s')" and "alerts_aux s oid = Some a"
  shows "\<exists>ys. alerts_aux s' oid = Some (a\<lparr>prv_candidates := add_to_set (prv_candidates a) ys\<rparr>)"
  using assms
proof (induction test ev ps w s evs arbitrary: a rule: listener.induct)
  case (1 test ev ps w s)
  then have "alerts_aux s' oid = Some (a\<lparr>prv_candidates := add_to_set (prv_candidates a) []\<rparr>)"
    by (simp add: add_to_set_Nil)
  then show ?case ..
next
  case (2 test ev ps w s n evs)
  then show ?case by simp
next
  case (3 test ev ps w s code evs)
  obtain w1 b where e: "error_cb w code = (w1, b)" by (cases "error_cb w code")
  show ?case
  proof (cases b)
    case True
    with "3.prems" e have "alerts_aux s' oid
        = Some (a\<lparr>prv_candidates := add_to_set (prv_candidates a) []\<rparr>)"
      by (simp add: add_to_set_Nil)
    then show ?thesis ..
  next
    case False
    with "3.prems" e have l: "listener test ev ps w1 s evs = (st, w', s')" by simp
    from "3.IH" [OF e [symmetric] _ l "3.prems"(2)] False show ?thesis by simp
  qed
next
  case (4 test ev ps w s m evs)
  obtain s1 out where p: "poll ev ps s m = (s1, out)" by (cases "poll ev ps s m")
  from poll_aux_grows [OF p "4.prems"(2)] obtain ys where
    s1: "alerts_aux s1 oid = Some (a\<lparr>prv_candidates := add_to_set (prv_candidates a) ys\<rparr>)"
    by blast
  have step: "\<exists>ys. alerts_aux s' oid
        = Some (a\<lparr>prv_candidates := add_to_set (prv_candidates a) ys\<rparr>)"
    if "\<exists>zs. alerts_aux s' oid
        = Some ((a\<lparr>prv_candidates := add_to_set (prv_candidates a) ys\<rparr>)
                 \<lparr>prv_candidates := add_to_set (prv_candidates
                     (a\<lparr>prv_candidates := add_to_set (prv_candidates a) ys\<rparr>)) zs\<rparr>)"
  proof -
    from that obtain zs where
      "alerts_aux s' oid = Some (a\<lparr>prv_candidates := add_to_set (prv_candidates a) (ys @ zs)\<rparr>)"
      by (auto simp: add_to_set_append)
    then show ?thesis ..
  qed
  show ?case
  proof (cases out)
    case (Returned r)
    with "4.prems"(1) p have l: "listener test ev ps w s1 evs = (st, w', s')" by simp
    from "4.IH"(1) [OF p [symmetric] Returned l s1] show ?thesis by (rule step)
  next
    case (Raised e)
    show ?thesis
    proof (cases "handler_exits test e")
      case True
      with "4.prems"(1) p Raised have "s' = s1" by simp
      with s1 show ?thesis by blast
    next
      case False
      with "4.prems"(1) p Raised have l: "listener test ev ps w s1 evs = (st, w', s')" by simp
      from "4.IH"(2) [OF p [symmetric] Raised False l s1] show ?thesis by (rule step)
    qed
  qed
qed

lemma alert_mongify_coordinates:
  assumes "alert_mongify u r = Inr (doc, prv)"
    and "map_of r ''candidate'' = Some (JObj c)"
    and "map_of c ''ra'' = Some (JNum ra)" and "map_of c ''dec'' = Some dec"
  shows "\<exists>coords. map_of doc ''coordinates'' = Some (JObj coords) \<and>
           map_of coords ''radec_geojson''
             = Some (JObj [(''type'', JStr ''Point''),
                           (''coordinates'', JList [JNum (ra - 180), dec])])"
  using assms
  by (auto simp: alert_mongify_def Let_def getitem_def subscr_def sub180_def map_of_pop
        map_of_setitem split: sum.splits prod.splits option.splits)

lemma ingest_cases:
  assumes "ingest ev ps raw s r c oid = (s', res)"
  shows "(\<exists>e. alert_mongify ev r = Inl e \<and> res = Some e \<and>
            s' = (if save_packets ps
                  then s\<lparr>files := (files s)((path_alerts ps, datestr ps, c, ''.avro'')
                                               \<mapsto> AvroPacket raw)\<rparr>
                  else s)) \<or>
         (\<exists>alert0 prv0. alert_mongify ev r = Inr (alert0, prv0) \<and>
            alerts s' = alerts s @ [setitem alert0 ''classifications'' (JObj (alert_filter__ml ev r))])"
  using assms
  by (auto simp: ingest_def Let_def split: sum.splits prod.splits if_splits dest!: tess_dump_store)

lemma process_record_again:
  assumes "process_record ev ps raw s r = (s', res)"
  shows "fst (process_record ev ps raw s' r) = s'"
proof (cases "getitem r ''candid''")
  case (Inl e)
  with assms show ?thesis by (simp add: process_record_def)
next
  case c: (Inr c)
  show ?thesis
  proof (cases "getitem r ''objectId''")
    case (Inl e)
    with assms c show ?thesis by (simp add: process_record_def)
  next
    case o: (Inr oid)
    show ?thesis
    proof (cases "candid_in_db s c")
      case True
      with assms c o show ?thesis by (simp add: process_record_def)
    next
      case False
      with assms c o have i: "ingest ev ps raw s r c oid = (s', res)"
        by (simp add: process_record_def)
      from ingest_cases [OF i] show ?thesis
      proof (elim disjE exE conjE)
        fix e
        assume m: "alert_mongify ev r = Inl e" and
          s': "s' = (if save_packets ps
                  then s\<lparr>files := (files s)((path_alerts ps, datestr ps, c, ''.avro'')
                                               \<mapsto> AvroPacket raw)\<rparr>
                  else s)"
        from s' False have "\<not> candid_in_db s' c" by (simp add: candid_in_db_def)
        with c o m s' show ?thesis
          by (simp add: process_record_def ingest_def)
      next
        fix alert0 prv0
        assume m: "alert_mongify ev r = Inr (alert0, prv0)" and
          a: "alerts s' = alerts s @ [setitem alert0 ''classifications'' (JObj (alert_filter__ml ev r))]"
        from c have "map_of r ''candid'' = Some c" by (simp add: getitem_Inr_iff)
        with alert_mongify_candid [OF m] a have "candid_in_db s' c"
          by (auto simp: candid_in_db_iff map_of_setitem)
        with c o show ?thesis by (simp add: process_record_def)
      qed
    qed
  qed
qed

section \<open>Facts about the filters\<close>

lemma latest_filters_length: "length (latest_filters stored cat) \<le> 1"
  by (simp add: latest_filters_def stage_group_all_def stage_group_program_def)




lemmas auth_defs = jwt0_def request0_def handler0_def bearer_token_def split_ws_def is_space_def
  lower_cp_def truthy_def ustr_def header_nbsp_def

section \<open>The normalizer separates the prior candidates\<close>

text \<open>
  Claim C9, as amended. For a record whose coordinates the helpers accept:
  when the record has a \<open>prv_candidates\<close> field, \<open>alert_mongify\<close> returns a document
  without that field together with the field's value, the empty list standing for null;
  when the record has no such field, \<open>alert_mongify\<close> raises \<open>KeyError\<close> (the value is
  read with \<open>doc['prv_candidates']\<close> before it is popped).
\<close>

theorem alert_mongify_prv_candidates:
  assumes "map_of alert ''candidate'' = Some (JObj c)"
    and "map_of c ''ra'' = Some ra" and "map_of c ''dec'' = Some dec"
    and "deg2hms u ra = Inr hms" and "deg2dms u dec = Inr dms"
    and "sub180 ra = Inr g" and "radec2lb u ra dec = Inr (l, b)"
  shows "case map_of alert ''prv_candidates'' of
           None \<Rightarrow> alert_mongify u alert = Inl (KeyError ''prv_candidates'')
         | Some v \<Rightarrow>
             (\<exists>doc. alert_mongify u alert = Inr (doc, if v = JNull then JList [] else v)
                \<and> map_of doc ''prv_candidates'' = None)"
  using assms
  by (simp add: alert_mongify_def getitem_def map_of_setitem map_of_pop subscr_def
           split: option.splits)

theorem alert_mongify_prv_candidates_witness:
  "map_of alert1001 ''candidate'' = Some (JObj candidate1001)
   \<and> map_of candidate1001 ''ra'' = Some (JNum 10)
   \<and> map_of candidate1001 ''dec'' = Some (JNum 20)
   \<and> deg2hms utils0 (JNum 10) = Inr (JStr ''hms'')
   \<and> deg2dms utils0 (JNum 20) = Inr (JStr ''dms'')
   \<and> sub180 (JNum 10) = Inr (JNum (- 170))
   \<and> radec2lb utils0 (JNum 10) (JNum 20) = Inr (JNum 0, JNum 0)
   \<and> (\<exists>doc. alert_mongify utils0 alert1001 = Inr (doc, JList [])
          \<and> map_of doc ''prv_candidates'' = None)"
proof -
  have h: "map_of alert1001 ''candidate'' = Some (JObj candidate1001)"
    "map_of candidate1001 ''ra'' = Some (JNum 10)"
    "map_of candidate1001 ''dec'' = Some (JNum 20)"
    "deg2hms utils0 (JNum 10) = Inr (JStr ''hms'')"
    "deg2dms utils0 (JNum 20) = Inr (JStr ''dms'')"
    "sub180 (JNum 10) = Inr (JNum (- 170))"
    "radec2lb utils0 (JNum 10) (JNum 20) = Inr (JNum 0, JNum 0)"
    by (simp_all add: alert1001_def candidate1001_def utils0_def sub180_def)
  have p: "map_of alert1001 ''prv_candidates'' = Some JNull"
    by (simp add: alert1001_def)
  show ?thesis
    using h alert_mongify_prv_candidates [OF h] by (simp add: p)
qed

text \<open>The claim as stated fails on a record without the field: no empty list is
  returned, the normalizer raises.\<close>

theorem alert_mongify_absent_counterexample:
  "map_of alert_no_prv ''prv_candidates'' = None
   \<and> alert_mongify utils0 alert_no_prv = Inl (KeyError ''prv_candidates'')"
  by (simp add: alert_no_prv_def candidate1001_def utils0_def alert_mongify_def getitem_def
        map_of_setitem subscr_def sub180_def)

section \<open>The primary document stores the GeoJSON point\<close>

text \<open>
  Claim C4. Whenever processing a record writes a primary document (the record is
  ingested) and the record's candidate has the coordinates \<open>ra\<close> and \<open>dec\<close>, the document
  written carries the record's \<open>candid\<close> and its \<open>coordinates.radec_geojson\<close> is the GeoJSON
  point with the coordinates \<open>[ra - 180, dec]\<close>.
\<close>

theorem primary_document_radec_geojson:
  assumes "process_record ev ps raw s r = (s', res)"
    and "alerts s' \<noteq> alerts s"
    and "map_of r ''candidate'' = Some (JObj c)"
    and "map_of c ''ra'' = Some (JNum ra)" and "map_of c ''dec'' = Some (JNum dec)"
  shows "\<exists>doc coords. alerts s' = alerts s @ [doc]
           \<and> map_of doc ''candid'' = map_of r ''candid''
           \<and> map_of doc ''coordinates'' = Some (JObj coords)
           \<and> map_of coords ''radec_geojson''
               = Some (JObj [(''type'', JStr ''Point''),
                             (''coordinates'', JList [JNum (ra - 180), JNum dec])])"
proof -
  from assms(1,2) obtain candid objectId where
    i: "ingest ev ps raw s r candid objectId = (s', res)"
    by (auto simp: process_record_def split: sum.splits if_splits)
  from ingest_alerts [OF i] assms(2) obtain alert0 prv0 where
    m: "alert_mongify ev r = Inr (alert0, prv0)" and
    a: "alerts s' = alerts s @ [setitem alert0 ''classifications'' (JObj (alert_filter__ml ev r))]"
    by auto
  from alert_mongify_coordinates [OF m assms(3,4,5)] obtain coords where
    "map_of alert0 ''coordinates'' = Some (JObj coords)"
    "map_of coords ''radec_geojson''
       = Some (JObj [(''type'', JStr ''Point''),
                     (''coordinates'', JList [JNum (ra - 180), JNum dec])])"
    by blast
  with a alert_mongify_candid [OF m] show ?thesis
    by (simp add: map_of_setitem)
qed

theorem primary_document_radec_geojson_witness:
  "alerts (fst (process_record env0 opts0 ''m1001'' store0 alert1001)) \<noteq> alerts store0
   \<and> map_of alert1001 ''candidate'' = Some (JObj candidate1001)
   \<and> map_of candidate1001 ''ra'' = Some (JNum 10)
   \<and> map_of candidate1001 ''dec'' = Some (JNum 20)
   \<and> (\<exists>doc coords.
         alerts (fst (process_record env0 opts0 ''m1001'' store0 alert1001))
           = alerts store0 @ [doc]
         \<and> map_of doc ''candid'' = Some (JInt 1001)
         \<and> map_of doc ''coordinates'' = Some (JObj coords)
         \<and> map_of coords ''radec_geojson''
             = Some (JObj [(''type'', JStr ''Point''),
                           (''coordinates'', JList [JNum (- 170), JNum 20])]))"
proof -
  have h1: "process_record env0 opts0 ''m1001'' store0 alert1001
      = (fst (process_record env0 opts0 ''m1001'' store0 alert1001),
         snd (process_record env0 opts0 ''m1001'' store0 alert1001))"
    by simp
  have h2: "alerts (fst (process_record env0 opts0 ''m1001'' store0 alert1001)) \<noteq> alerts store0"
    by (simp add: ex_defs model_defs Let_def)
  have h3: "map_of alert1001 ''candidate'' = Some (JObj candidate1001)"
    by (simp add: alert1001_def)
  have h4: "map_of candidate1001 ''ra'' = Some (JNum 10)"
    by (simp add: candidate1001_def)
  have h5: "map_of candidate1001 ''dec'' = Some (JNum 20)"
    by (simp add: candidate1001_def)
  have c: "map_of alert1001 ''candid'' = Some (JInt 1001)"
    by (simp add: alert1001_def)
  show ?thesis
    using h2 h3 h4 h5 primary_document_radec_geojson [OF h1 h2 h3 h4 h5]
    by (simp add: c)
qed

section \<open>The prior candidates of an auxiliary document\<close>

text \<open>
  Claim C2, as amended. Whatever the broker does next (any sequence of polls and
  callbacks), an auxiliary document that exists stays, keeps its \<open>cross_matches\<close>, and its
  \<open>prv_candidates\<close> array only grows: the old array is a prefix of the new one. The
  appended entries are deduplicated by value, so an array without two equal entries
  stays without two equal entries.
\<close>

theorem aux_prv_candidates_grow:
  assumes "listener test ev ps w s evs = (st, w', s')" and "alerts_aux s oid = Some a"
  shows "\<exists>a'. alerts_aux s' oid = Some a'
           \<and> cross_matches a' = cross_matches a
           \<and> prefix (prv_candidates a) (prv_candidates a')
           \<and> (distinct (prv_candidates a) \<longrightarrow> distinct (prv_candidates a'))"
proof -
  from listener_aux_grows [OF assms] obtain ys where
    "alerts_aux s' oid = Some (a\<lparr>prv_candidates := add_to_set (prv_candidates a) ys\<rparr>)"
    by blast
  then show ?thesis
    by (simp add: add_to_set_prefix add_to_set_distinct)
qed

theorem aux_prv_candidates_grow_witness:
  "alerts_aux store1 (JStr ''ZTF01'') = Some aux1
   \<and> distinct (prv_candidates aux1)
   \<and> (\<exists>a'. alerts_aux (snd (snd (listener False env0 opts0 worker0 store1
                                      [Poll (Some (msg ''m1003''))]))) (JStr ''ZTF01'') = Some a'
          \<and> cross_matches a' = cross_matches aux1
          \<and> prefix (prv_candidates aux1) (prv_candidates a')
          \<and> distinct (prv_candidates a')
          \<and> prv_candidates a' = [[(''candid'', JInt 900), (''magpsf'', JNum 18)],
                                  [(''candid'', JInt 900), (''magpsf'', JNum 19)]])"
proof -
  have h1: "listener False env0 opts0 worker0 store1 [Poll (Some (msg ''m1003''))]
      = (fst (listener False env0 opts0 worker0 store1 [Poll (Some (msg ''m1003''))]),
         fst (snd (listener False env0 opts0 worker0 store1 [Poll (Some (msg ''m1003''))])),
         snd (snd (listener False env0 opts0 worker0 store1 [Poll (Some (msg ''m1003''))])))"
    by simp
  have h2: "alerts_aux store1 (JStr ''ZTF01'') = Some aux1"
    by (simp add: store1_def)
  have h3: "distinct (prv_candidates aux1)"
    by (simp add: aux1_def)
  have v: "map_option prv_candidates
      (alerts_aux (snd (snd (listener False env0 opts0 worker0 store1
          [Poll (Some (msg ''m1003''))]))) (JStr ''ZTF01''))
      = Some [[(''candid'', JInt 900), (''magpsf'', JNum 18)],
              [(''candid'', JInt 900), (''magpsf'', JNum 19)]]"
    by (simp add: ex_defs store1_def aux1_def model_defs Let_def add_to_set_def)
  show ?thesis
    using h2 h3 v aux_prv_candidates_grow [OF h1 h2] by auto
qed

text \<open>
  The claim as stated fails: equality of entries is by value, not by \<open>candid\<close>. After the
  three alerts of \<open>ZTF01\<close>, the array holds two entries with the \<open>candid\<close> 900.
\<close>

theorem aux_prv_candidates_same_candid_counterexample:
  "map_option prv_candidates
     (alerts_aux (snd (snd (listener False env0 opts0 worker0 store0
          [Poll (Some (msg ''m1001'')), Poll (Some (msg ''m1002'')),
           Poll (Some (msg ''m1003''))]))) (JStr ''ZTF01''))
   = Some [[(''candid'', JInt 900), (''magpsf'', JNum 18)],
           [(''candid'', JInt 900), (''magpsf'', JNum 19)]]"
  by (simp add: ex_defs model_defs Let_def add_to_set_def handler_exits_def)

section \<open>Re-processing a message\<close>

text \<open>
  Claim C1, as amended. When a poll has processed every record of a message without a
  per-alert error, or when the message carries at most one record, polling the same
  message again leaves the store (primary collection, auxiliary collection, files) as it
  is: every record ingested the first time is skipped by the \<open>candid\<close> check.
\<close>

theorem poll_idempotent:
  assumes "poll ev ps s (Some m) = (s', out)"
    and "out = Returned None
         \<or> (\<forall>records. decodeMessage ev (msg_value m) = Inr records \<longrightarrow> length records \<le> 1)"
  shows "fst (poll ev ps s' (Some m)) = s'"
proof (cases "msg_error m")
  case True
  with assms(1) show ?thesis by (simp add: poll_def)
next
  case ne: False
  show ?thesis
  proof (cases "decodeMessage ev (msg_value m)")
    case (Inl e)
    with assms(1) ne show ?thesis by (simp add: poll_def)
  next
    case (Inr records)
    obtain res where p: "process_records ev ps (msg_value m) s records = (s', res)"
      and out: "res = None \<longleftrightarrow> out = Returned None"
      using assms(1) ne Inr
      by (auto simp: poll_def split: prod.splits option.splits if_splits)
    have "fst (process_records ev ps (msg_value m) s' records) = s'"
    proof (cases "res = None")
      case True
      with p have "process_records ev ps (msg_value m) s records = (s', None)" by simp
      from process_records_all_skipped [OF process_records_done [OF this]]
      show ?thesis by simp
    next
      case False
      with assms(2) out Inr have "length records \<le> 1" by simp
      then consider "records = []" | r where "records = [r]"
        by (cases records) auto
      then show ?thesis
      proof cases
        case 1
        then show ?thesis by simp
      next
        case 2
        with p have "fst (process_record ev ps (msg_value m) s r) = s'"
          by (auto split: prod.splits option.splits)
        then have "process_record ev ps (msg_value m) s r
            = (s', snd (process_record ev ps (msg_value m) s r))"
          by (metis prod.collapse)
        from process_record_again [OF this] 2 show ?thesis
          by (auto split: prod.splits option.splits)
      qed
    qed
    with ne Inr show ?thesis
      by (auto simp: poll_def split: prod.splits option.splits)
  qed
qed

theorem poll_idempotent_witness:
  "snd (poll env0 opts0 store0 (Some (msg ''m1001''))) = Returned None
   \<and> fst (poll env0 opts0 (fst (poll env0 opts0 store0 (Some (msg ''m1001''))))
            (Some (msg ''m1001'')))
     = fst (poll env0 opts0 store0 (Some (msg ''m1001'')))"
proof -
  have h1: "poll env0 opts0 store0 (Some (msg ''m1001''))
      = (fst (poll env0 opts0 store0 (Some (msg ''m1001''))),
         snd (poll env0 opts0 store0 (Some (msg ''m1001''))))"
    by simp
  have h2: "snd (poll env0 opts0 store0 (Some (msg ''m1001''))) = Returned None"
    by (simp add: ex_defs model_defs Let_def)
  show ?thesis
    using h2 poll_idempotent [OF h1 disjI1 [OF h2]] by simp
qed

text \<open>
  The claim as stated fails on a message of two records whose first record has a null
  \<open>programpi\<close>: the TESS test raises after the primary insert and ends the message, so
  the first poll ingests one record only; the second poll skips it and ingests the other.
\<close>

theorem poll_early_error_counterexample:
  "snd (poll env0 opts0 store0 (Some (msg ''m3001''))) = Returned (Some TypeError)
   \<and> length (alerts (fst (poll env0 opts0 store0 (Some (msg ''m3001''))))) = 1
   \<and> length (alerts (fst (poll env0 opts0 (fst (poll env0 opts0 store0 (Some (msg ''m3001''))))
                              (Some (msg ''m3001''))))) = 2"
  by (simp add: ex_defs model_defs Let_def)

section \<open>End of partition\<close>

text \<open>
  Claim C3, as amended. An end-of-partition signal (a message with an error) is not
  counted: while the broker sends nothing else, the worker's state stays as it is, in test
  mode the listener exits on the first signal, and in production mode it keeps polling.
  What is counted per partition is the error callback with code \<open>-195\<close>, and the worker
  exits when that count meets the number of assigned partitions.
\<close>

theorem listener_end_of_partition:
  assumes "\<forall>e\<in>set evs. \<exists>m. e = Poll (Some m) \<and> msg_error m"
  shows "listener test ev ps w s evs = (if test \<and> evs \<noteq> [] then Exited else Running, w, s)
    \<and> listener test ev ps w s (ErrorCb (- 195) # evs) =
        (if num_disconnected_partitions w + 1 = num_partitions w \<or> (test \<and> evs \<noteq> [])
         then Exited else Running,
         w\<lparr>num_disconnected_partitions := num_disconnected_partitions w + 1\<rparr>, s)"
proof -
  have eop: "listener test ev ps w' s evs
      = (if test \<and> evs \<noteq> [] then Exited else Running, w', s)" for w'
    using assms
  proof (induction evs)
    case Nil
    show ?case by simp
  next
    case (Cons e evs)
    then obtain m where e: "e = Poll (Some m)" and m: "msg_error m" by auto
    from m have p: "poll ev ps s (Some m) = (s, Raised EopError)" by (simp add: poll_def)
    show ?case
    proof (cases test)
      case True
      with e p show ?thesis by (simp add: handler_exits_def)
    next
      case False
      with Cons e p show ?thesis by (simp add: handler_exits_def)
    qed
  qed
  show ?thesis
    by (simp add: eop error_cb_def Let_def split: bool.splits)
qed

theorem listener_end_of_partition_witness:
  "listener True env0 opts0 worker0 store0 [Poll (Some eop_msg)] = (Exited, worker0, store0)
   \<and> listener False env0 opts0 worker0 store0 [Poll (Some eop_msg), Poll (Some eop_msg)]
       = (Running, worker0, store0)"
proof -
  have h1: "\<forall>e\<in>set [Poll (Some eop_msg)]. \<exists>m. e = Poll (Some m) \<and> msg_error m"
    by (simp add: eop_msg_def)
  have h2: "\<forall>e\<in>set [Poll (Some eop_msg), Poll (Some eop_msg)].
              \<exists>m. e = Poll (Some m) \<and> msg_error m"
    by (simp add: eop_msg_def)
  show ?thesis
    using listener_end_of_partition [OF h1, of True env0 opts0 worker0 store0]
      listener_end_of_partition [OF h2, of False env0 opts0 worker0 store0]
    by simp
qed

text \<open>
  The claim as stated fails in production mode: a worker with one assigned partition that
  receives the end-of-partition signal is still running.
\<close>

theorem listener_all_partitions_ended_counterexample:
  "listener False env0 opts0 worker0 store0 [OnAssign 1, Poll (Some eop_msg)]
   = (Running, \<lparr>num_partitions = 1, num_disconnected_partitions = 0\<rparr>, store0)"
  by (simp add: on_assign_def worker0_def poll_def eop_msg_def handler_exits_def)

section \<open>No message\<close>

text \<open>
  Claim C8, on the code. When the broker returns no message, \<open>poll\<close> prints the condition
  and then raises an attribute error on \<open>msg.error()\<close>; the listener's last handler
  exits the process. The worker does not continue its loop.
\<close>

theorem listener_no_message_exits:
  "listener test ev ps w s (Poll None # evs) = (Exited, w, s)"
  by (simp add: poll_def handler_exits_def)

section \<open>The TESS dump\<close>

text \<open>
  Claim C5, on the code. For the TESS alert 2000 of a new object, with \<open>save_packets\<close>
  true and a galaxy match that found nothing, the JSON file is written at its path and
  its \<open>cross_matches\<close> still has the key \<open>CLU_20190625\<close>: the key is popped from the
  projected auxiliary document, not from its \<open>cross_matches\<close>.
\<close>

theorem tess_dump_keeps_clu:
  "(case files (fst (poll env0 opts0 store0 (Some (msg ''m2000''))))
           (''/tess'', ''20200101'', JInt 2000, ''.json'') of
      Some (JsonDump a) \<Rightarrow> map_of a ''cross_matches''
    | _ \<Rightarrow> None)
   = Some (JObj [(''CLU_20190625'', JList [])])"
  by (simp add: ex_defs model_defs Let_def setitem_def pop_def)

section \<open>Filter isolation\<close>




section \<open>Loading the filter templates\<close>

text \<open>
  Claim C7, on the code. With one stored template for each of two science programs, one
  template is loaded in all, the last stored: the first \<open>$group\<close> stage groups by a
  constant. The upstream pipeline is prepended to the parsed pipeline of what is loaded.
\<close>

theorem load_filter_templates_one_group:
  "load_filter_templates upstream0 loads0 [stored1, stored2] ''ZTF_alerts''
   = Inr [\<lparr>filter_id = JInt 2, catalog = ''ZTF_alerts'', science_program_id = 2, created = 20,
           pipeline = upstream0 @ [JObj [(''$match'', JObj [(''candidate.rb'', JStr ''0.9'')])]]\<rparr>]"
  by (simp add: load_filter_templates_def latest_filters_def stage_group_all_def
        stage_group_program_def stage_match_def stored1_def stored2_def loads0_def)

section \<open>The auth middleware and its decorators\<close>

text \<open>
  Claim C10, as amended. Behind the middleware, a handler wrapped by \<open>auth_required\<close> or
  \<open>admin_required\<close> answers 401 to a request without an Authorization header or with an
  empty one. For a non-empty header the token is the header itself, or its second word
  when the header contains \<open>bearer\<close> in any case. A token that fails to decode or is
  expired gets 400 from the middleware, whatever the handler. When the token decodes to a
  payload with a \<open>user_id\<close>, the wrapped handler answers 401 if the \<open>user_id\<close> is falsy
  (empty); otherwise the handler wrapped by \<open>auth_required\<close> runs on the request with that
  user bound, and the handler wrapped by \<open>admin_required\<close> answers 403 when the user is not
  the admin name and runs otherwise. In the three cases left (a header with \<open>bearer\<close> and
  fewer than two words, another error of the decoding, a payload without \<open>user_id\<close>) the
  error is not caught by the middleware.
\<close>

theorem auth_responses:
  "(authorization req = None \<or> authorization req = Some [] \<longrightarrow>
      auth_middleware jwt_decode req (auth_required func) = JsonResponse 401
      \<and> auth_middleware jwt_decode req (admin_required admin func) = JsonResponse 401)
   \<and> (authorization req = Some h \<and> h \<noteq> []
        \<and> is_substr (ustr ''bearer'') (map lower_cp h) \<and> length (split_ws h) < 2 \<longrightarrow>
      auth_middleware jwt_decode req handler = Unhandled IndexError)
   \<and> (authorization req = Some h \<and> h \<noteq> []
        \<and> (if is_substr (ustr ''bearer'') (map lower_cp h)
            then 2 \<le> length (split_ws h) \<and> tok = split_ws h ! 1
            else tok = h) \<longrightarrow>
        (jwt_decode tok = DecodeError \<or> jwt_decode tok = ExpiredSignatureError \<longrightarrow>
           auth_middleware jwt_decode req handler = JsonResponse 400)
      \<and> (jwt_decode tok = OtherJwtError \<longrightarrow>
           auth_middleware jwt_decode req handler = Unhandled (OtherError ''jwt''))
      \<and> (jwt_decode tok = Payload payload \<and> map_of payload ''user_id'' = None \<longrightarrow>
           auth_middleware jwt_decode req handler = Unhandled (KeyError ''user_id''))
      \<and> (jwt_decode tok = Payload payload \<and> map_of payload ''user_id'' = Some u \<longrightarrow>
           auth_middleware jwt_decode req (auth_required func)
             = (if truthy u then func (req\<lparr>user := u\<rparr>) else JsonResponse 401)
         \<and> auth_middleware jwt_decode req (admin_required admin func)
             = (if \<not> truthy u then JsonResponse 401
                else if u \<noteq> JStr admin then JsonResponse 403
                else func (req\<lparr>user := u\<rparr>))))"
proof -
  have b1: "bearer_token h = Inl IndexError"
    if "is_substr (ustr ''bearer'') (map lower_cp h)" "length (split_ws h) < 2"
    using that by (cases "split_ws h" rule: list.exhaust; cases "tl (split_ws h)")
      (auto simp: bearer_token_def)
  have b2: "bearer_token h = Inr tok"
    if "if is_substr (ustr ''bearer'') (map lower_cp h)
        then 2 \<le> length (split_ws h) \<and> tok = split_ws h ! 1
        else tok = h"
  proof (cases "is_substr (ustr ''bearer'') (map lower_cp h)")
    case True
    with that obtain a b rest where "split_ws h = a # b # rest" "tok = b"
      by (cases "split_ws h"; cases "tl (split_ws h)") auto
    with True show ?thesis by (simp add: bearer_token_def)
  next
    case False
    with that show ?thesis by (simp add: bearer_token_def)
  qed
  show ?thesis
    using b1 b2
    by (auto simp: auth_middleware_def auth_required_def admin_required_def truthy_def
          getitem_def Let_def)
qed

theorem auth_responses_witness:
  "auth_middleware jwt0 (request0 None) (auth_required handler0) = JsonResponse 401
   \<and> auth_middleware jwt0 (request0 None) (admin_required ''admin'' handler0) = JsonResponse 401
   \<and> auth_middleware jwt0 (request0 (Some (ustr ''Bearer bad''))) handler0 = JsonResponse 400
   \<and> auth_middleware jwt0 (request0 (Some (ustr ''old''))) handler0 = JsonResponse 400
   \<and> auth_middleware jwt0 (request0 (Some (ustr ''Bearer user''))) (auth_required handler0)
       = Handled (JStr ''alice'')
   \<and> auth_middleware jwt0 (request0 (Some (ustr ''Bearer user'')))
         (admin_required ''admin'' handler0) = JsonResponse 403
   \<and> auth_middleware jwt0 (request0 (Some header_nbsp)) (admin_required ''admin'' handler0)
       = Handled (JStr ''admin'')
   \<and> auth_middleware jwt0 (request0 (Some (ustr ''Bearer anon''))) (auth_required handler0)
       = JsonResponse 401"
proof -
  have s: "split_ws (ustr ''Bearer bad'') = [ustr ''Bearer'', ustr ''bad'']"
    "split_ws (ustr ''Bearer user'') = [ustr ''Bearer'', ustr ''user'']"
    "split_ws (ustr ''Bearer anon'') = [ustr ''Bearer'', ustr ''anon'']"
    "split_ws header_nbsp = [ustr ''Bearer'', ustr ''good'', ustr ''bad'']"
    by (simp_all add: split_ws_def is_space_def ustr_def header_nbsp_def)
  have b: "is_substr (ustr ''bearer'') (map lower_cp (ustr ''Bearer bad''))"
    "\<not> is_substr (ustr ''bearer'') (map lower_cp (ustr ''old''))"
    "is_substr (ustr ''bearer'') (map lower_cp (ustr ''Bearer user''))"
    "is_substr (ustr ''bearer'') (map lower_cp (ustr ''Bearer anon''))"
    "is_substr (ustr ''bearer'') (map lower_cp header_nbsp)"
    by (simp_all add: lower_cp_def ustr_def header_nbsp_def)
  have j: "jwt0 (ustr ''bad'') = DecodeError" "jwt0 (ustr ''old'') = ExpiredSignatureError"
    "jwt0 (ustr ''user'') = Payload [(''user_id'', JStr ''alice'')]"
    "jwt0 (ustr ''good'') = Payload [(''user_id'', JStr ''admin'')]"
    "jwt0 (ustr ''anon'') = Payload [(''user_id'', JStr [])]"
    by (simp_all add: jwt0_def ustr_def)
  have n: "ustr ''Bearer bad'' \<noteq> []" "ustr ''old'' \<noteq> []" "ustr ''Bearer user'' \<noteq> []"
    "ustr ''Bearer anon'' \<noteq> []" "header_nbsp \<noteq> []"
    by (simp_all add: ustr_def header_nbsp_def)
  show ?thesis
    using
      auth_responses [where req = "request0 None" and jwt_decode = jwt0 and func = handler0
        and admin = "''admin''"]
      auth_responses [where req = "request0 (Some (ustr ''Bearer bad''))" and jwt_decode = jwt0
        and h = "ustr ''Bearer bad''" and tok = "ustr ''bad''" and handler = handler0]
      auth_responses [where req = "request0 (Some (ustr ''old''))" and jwt_decode = jwt0
        and h = "ustr ''old''" and tok = "ustr ''old''" and handler = handler0]
      auth_responses [where req = "request0 (Some (ustr ''Bearer user''))" and jwt_decode = jwt0
        and h = "ustr ''Bearer user''" and tok = "ustr ''user''" and func = handler0
        and admin = "''admin''" and payload = "[(''user_id'', JStr ''alice'')]"
        and u = "JStr ''alice''"]
      auth_responses [where req = "request0 (Some header_nbsp)" and jwt_decode = jwt0
        and h = header_nbsp and tok = "ustr ''good''" and func = handler0
        and admin = "''admin''" and payload = "[(''user_id'', JStr ''admin'')]"
        and u = "JStr ''admin''"]
      auth_responses [where req = "request0 (Some (ustr ''Bearer anon''))" and jwt_decode = jwt0
        and h = "ustr ''Bearer anon''" and tok = "ustr ''anon''" and func = handler0
        and admin = "''admin''" and payload = "[(''user_id'', JStr [])]"
        and u = "JStr []"]
    by (simp add: s b j n request0_def handler0_def truthy_def)
qed

text \<open>
  The claim as stated fails on a token that decodes to an empty \<open>user_id\<close>: the header is
  there, the token decodes, and the wrapped handler does not run; the answer is 401, as
  it is for an empty header, which is never decoded. On the header \<open>Bearer\<close> alone, on
  another error of the decoding and on a payload without \<open>user_id\<close>, the request gets none
  of the four answers of the claim: the error leaves the middleware.
\<close>

theorem auth_not_run_counterexample:
  "bearer_token (ustr ''Bearer anon'') = Inr (ustr ''anon'')
   \<and> jwt0 (ustr ''anon'') = Payload [(''user_id'', JStr [])]
   \<and> auth_middleware jwt0 (request0 (Some (ustr ''Bearer anon''))) (auth_required handler0)
       = JsonResponse 401
   \<and> auth_middleware jwt0 (request0 (Some [])) (auth_required handler0) = JsonResponse 401
   \<and> auth_middleware jwt0 (request0 (Some (ustr ''Bearer''))) (auth_required handler0)
       = Unhandled IndexError
   \<and> auth_middleware jwt0 (request0 (Some (ustr ''alg''))) (auth_required handler0)
       = Unhandled (OtherError ''jwt'')
   \<and> auth_middleware jwt0 (request0 (Some (ustr ''Bearer nouser''))) (auth_required handler0)
       = Unhandled (KeyError ''user_id'')"
  by (simp add: auth_defs auth_middleware_def auth_required_def getitem_def)

end
